theory Spec2Isabelle
  imports Complex_Main "HOL-Library.AList"
begin

section \<open>Conventions of the embedding\<close>

text \<open>
  The repository is Python. Its floats are modelled as exact reals (\<^typ>\<open>real\<close>): every
  statement below is about the arithmetic the code writes down, not about IEEE rounding.
  Python dictionaries with a fixed set of keys become records; a key that the code reads
  with \<^verbatim>\<open>.get(key, default)\<close> becomes an \<^typ>\<open>'a option\<close> field, \<open>None\<close> standing for
  the missing key. Calls that leave the repository (the language model, pandas' date
  parser, SQLite's failure modes) are parameters of the functions that make them.
\<close>

subsection \<open>Python helpers\<close>

text \<open>\<^verbatim>\<open>int(x)\<close> on a float truncates towards zero.\<close>

definition py_int :: "real \<Rightarrow> int" where
  "py_int x = (if 0 \<le> x then \<lfloor>x\<rfloor> else \<lceil>x\<rceil>)"

text \<open>\<^verbatim>\<open>max(lo, min(hi, x))\<close>, the clamp both scorers end with.\<close>

definition clamp :: "real \<Rightarrow> real \<Rightarrow> real \<Rightarrow> real" where
  "clamp lo hi x = max lo (min hi x)"

text \<open>
  A Python \<^verbatim>\<open>str\<close> is a sequence of Unicode code points; \<open>codepoints\<close> reads an ASCII
  literal as one.
\<close>

type_synonym py_str = "nat list"

definition codepoints :: "string \<Rightarrow> py_str" where
  "codepoints s = map of_char s"

text \<open>
  The code points \<^verbatim>\<open>str.split()\<close> treats as whitespace: U+0009 to U+000D, U+001C to
  U+0020, U+0085, U+00A0, U+1680, U+2000 to U+200A, U+2028, U+2029, U+202F, U+205F and
  U+3000.
\<close>

definition isspace :: "nat \<Rightarrow> bool" where
  "isspace c =
     ((9 \<le> c \<and> c \<le> 13) \<or> (28 \<le> c \<and> c \<le> 32) \<or> c = 133 \<or> c = 160 \<or> c = 5760
      \<or> (8192 \<le> c \<and> c \<le> 8202) \<or> c = 8232 \<or> c = 8233 \<or> c = 8239 \<or> c = 8287
      \<or> c = 12288)"

text \<open>
  \<^verbatim>\<open>text.split()\<close> with no argument: the maximal runs of non-whitespace characters, in
  order; runs of whitespace separate words and never produce an empty word. The second
  argument is the word being read (reversed). The method is called \<open>str_split\<close> here.
\<close>

fun split_from :: "py_str \<Rightarrow> py_str \<Rightarrow> py_str list" where
  "split_from [] cur = (if cur = [] then [] else [rev cur])"
| "split_from (c # cs) cur =
     (if isspace c
      then (if cur = [] then split_from cs [] else rev cur # split_from cs [])
      else split_from cs (c # cur))"

definition str_split :: "py_str \<Rightarrow> py_str list" where
  "str_split text = split_from text []"

section \<open>utils.py\<close>

text \<open>
  \<^verbatim>\<open>def approximate_tokens(text): return int(len(text.split()) * 1.3)\<close>
\<close>

definition approximate_tokens :: "py_str \<Rightarrow> int" where
  "approximate_tokens text = py_int (real (length (str_split text)) * 1.3)"

section \<open>enhanced_grouping.py: signatures\<close>

text \<open>
  A date string of a signature, as \<^verbatim>\<open>pd.to_datetime(s, utc=True, errors="raise")\<close>
  reads it: the key is missing, \<^verbatim>\<open>None\<close> or empty (\<open>Absent\<close>); the parser raises
  (\<open>Unparseable\<close>); or it yields a UTC instant, given in seconds.
\<close>

datatype date_field = Absent | Unparseable | Instant real

text \<open>An entry of an article signature's \<^verbatim>\<open>primary_entities\<close>.\<close>

record article_entity =
  entity_id :: int
  entity_name :: "string option"
  entity_type :: "string option"
  relevance_score :: "real option"

text \<open>An entry of a group signature's \<^verbatim>\<open>primary_entities\<close>.\<close>

record group_entity =
  g_entity_id :: int
  g_entity_name :: "string option"
  g_entity_type :: "string option"
  frequency :: "real option"
  avg_relevance :: "real option"

text \<open>
  Entries of a group signature's \<^verbatim>\<open>companies\<close>, \<^verbatim>\<open>cves\<close> and \<^verbatim>\<open>events\<close>: a name
  (\<^verbatim>\<open>company_name\<close>, \<^verbatim>\<open>cve_id\<close>, \<^verbatim>\<open>event_name\<close>) and a frequency.
\<close>

record group_item =
  item_name :: "string option"
  item_frequency :: "real option"

text \<open>
  The article signature: \<^verbatim>\<open>events\<close> holds the \<^verbatim>\<open>event_name\<close> of each event dictionary.
\<close>

record article_signature =
  article_id :: int
  published_date :: date_field
  source :: "string option"
  primary_entities :: "article_entity list"
  companies :: "string list"
  cves :: "string list"
  events :: "string option list"

record group_signature =
  sig_group_id :: int
  latest_published_date :: date_field
  member_sources :: "string list"
  g_primary_entities :: "group_entity list"
  g_companies :: "group_item list"
  g_cves :: "group_item list"
  g_events :: "group_item list"

text \<open>The dictionary \<^verbatim>\<open>calculate_article_to_group_similarity\<close> returns.\<close>

record similarity_results =
  entity_similarity :: real
  company_similarity :: real
  cve_similarity :: real
  event_similarity :: real
  composite_score :: real
  temporal_adjustment :: real
  source_bonus :: real
  core_entity_bonus :: real
  base_composite_score :: real

subsection \<open>Truthiness and dictionaries\<close>

text \<open>\<^verbatim>\<open>if s\<close> on an optional string: present and not empty.\<close>

definition truthy :: "string option \<Rightarrow> bool" where
  "truthy s = (case s of None \<Rightarrow> False | Some t \<Rightarrow> t \<noteq> [])"

text \<open>
  A dictionary comprehension \<^verbatim>\<open>{k: v for ...}\<close>: the pairs are stored from left to right,
  a repeated key keeps its first position and takes the later value.
\<close>

definition dict_of :: "('k \<times> 'v) list \<Rightarrow> ('k \<times> 'v) list" where
  "dict_of kvs = fold (\<lambda>(k, v) d. AList.update k v d) kvs []"

text \<open>
  \<^verbatim>\<open>sorted(xs, key=key, reverse=True)\<close>: descending by key, and stable (elements with equal
  keys keep their order, also under \<^verbatim>\<open>reverse=True\<close>).
\<close>

definition sorted_reverse :: "('a \<Rightarrow> real) \<Rightarrow> 'a list \<Rightarrow> 'a list" where
  "sorted_reverse key xs = sort_key (\<lambda>x. - key x) xs"

subsection \<open>The four base similarities\<close>

text \<open>
  \<^verbatim>\<open>{e["entity_id"]: e.get("relevance_score", 0.7) for e in primary_entities}\<close>
\<close>

definition article_entities_dict :: "article_entity list \<Rightarrow> (int \<times> real) list" where
  "article_entities_dict es =
     dict_of (map (\<lambda>e. (entity_id e, case relevance_score e of None \<Rightarrow> 0.7 | Some r \<Rightarrow> r)) es)"

text \<open>
  The loop over the group's entities; the accumulator is
  \<open>(entity_score, max_possible_score)\<close>.
\<close>

fun entity_loop :: "(int \<times> real) list \<Rightarrow> group_entity list \<Rightarrow> real \<times> real \<Rightarrow> real \<times> real" where
  "entity_loop d [] acc = acc"
| "entity_loop d (ge # ges) (entity_score, max_possible_score) =
     (let group_avg_relevance = (case avg_relevance ge of None \<Rightarrow> 0.7 | Some r \<Rightarrow> r);
          group_frequency = (case frequency ge of None \<Rightarrow> 0 | Some f \<Rightarrow> f);
          max_possible_score' = max_possible_score + group_frequency * group_avg_relevance
      in case map_of d (g_entity_id ge) of
           Some article_relevance \<Rightarrow>
             entity_loop d ges
               (entity_score + article_relevance * group_avg_relevance * group_frequency,
                max_possible_score')
         | None \<Rightarrow> entity_loop d ges (entity_score, max_possible_score'))"

definition calc_entity_similarity :: "article_signature \<Rightarrow> group_signature \<Rightarrow> real" where
  "calc_entity_similarity a g =
     (let d = article_entities_dict (primary_entities a) in
      if d \<noteq> [] \<and> g_primary_entities g \<noteq> []
      then (case entity_loop d (g_primary_entities g) (0, 0) of
              (entity_score, max_possible_score) \<Rightarrow>
                if max_possible_score > 0 then entity_score / max_possible_score else 0)
      else 0)"

text \<open>
  \<^verbatim>\<open>{x.get(name) for x in items if x.get(name)}\<close>: the truthy names of a group's items.
\<close>

definition item_names :: "group_item list \<Rightarrow> string set" where
  "item_names xs = set (map (\<lambda>x. the (item_name x)) (filter (\<lambda>x. truthy (item_name x)) xs))"

text \<open>Jaccard similarity as both the company and the CVE branch write it.\<close>

definition jaccard :: "string set \<Rightarrow> string set \<Rightarrow> real" where
  "jaccard A B =
     (if A \<noteq> {} \<and> B \<noteq> {}
      then (let intersection = card (A \<inter> B); union = card (A \<union> B)
            in if union > 0 then real intersection / real union else 0)
      else 0)"

definition calc_company_similarity :: "article_signature \<Rightarrow> group_signature \<Rightarrow> real" where
  "calc_company_similarity a g = jaccard (set (companies a)) (item_names (g_companies g))"

definition calc_cve_similarity :: "article_signature \<Rightarrow> group_signature \<Rightarrow> real" where
  "calc_cve_similarity a g = jaccard (set (cves a)) (item_names (g_cves g))"

definition article_event_names :: "article_signature \<Rightarrow> string set" where
  "article_event_names a = set (map the (filter truthy (events a)))"

text \<open>
  \<^verbatim>\<open>{e["event_name"]: e.get("frequency", 0.0) for e in events if e.get("event_name")}\<close>
\<close>

definition group_event_dict :: "group_item list \<Rightarrow> (string \<times> real) list" where
  "group_event_dict xs =
     dict_of (map (\<lambda>e. (the (item_name e), case item_frequency e of None \<Rightarrow> 0 | Some f \<Rightarrow> f))
                  (filter (\<lambda>e. truthy (item_name e)) xs))"

text \<open>
  The loop over the items of that dictionary; the accumulator is
  \<open>(event_score, max_possible_event_score)\<close>.
\<close>

fun event_loop :: "string set \<Rightarrow> (string \<times> real) list \<Rightarrow> real \<times> real \<Rightarrow> real \<times> real" where
  "event_loop names [] acc = acc"
| "event_loop names ((event_name, group_freq) # rest) (event_score, max_possible_event_score) =
     event_loop names rest
       (if event_name \<in> names then event_score + group_freq else event_score,
        max_possible_event_score + group_freq)"

definition calc_event_similarity :: "article_signature \<Rightarrow> group_signature \<Rightarrow> real" where
  "calc_event_similarity a g =
     (if article_event_names a \<noteq> {} \<and> g_events g \<noteq> []
      then (case event_loop (article_event_names a) (group_event_dict (g_events g)) (0, 0) of
              (event_score, max_possible_event_score) \<Rightarrow>
                if max_possible_event_score > 0 then event_score / max_possible_event_score
                else 0)
      else 0)"

subsection \<open>Adjustments\<close>

text \<open>
  The temporal analysis. Any exception inside the \<^verbatim>\<open>try\<close> (an unparseable date) leaves the
  adjustment at 0; so does a missing date on either side.
\<close>

definition calc_temporal_adjustment :: "date_field \<Rightarrow> date_field \<Rightarrow> real" where
  "calc_temporal_adjustment article_pub_date group_latest_pub_date =
     (case (article_pub_date, group_latest_pub_date) of
        (Instant a, Instant g) \<Rightarrow>
          (let hours_diff = \<bar>a - g\<bar> / 3600 in
           if hours_diff \<le> 48 then 0.05 * (1 - hours_diff / 48)
           else if hours_diff > 7 * 24 then - 0.03 * min (hours_diff / (7 * 24) - 1) 1.0
           else 0)
      | _ \<Rightarrow> 0)"

definition calc_source_bonus :: "article_signature \<Rightarrow> group_signature \<Rightarrow> real" where
  "calc_source_bonus a g =
     (if truthy (source a) \<and> member_sources g \<noteq> [] \<and> the (source a) \<in> set (member_sources g)
      then 0.03 else 0)"

definition CORE_ENTITY_BONUS :: real where
  "CORE_ENTITY_BONUS = 0.20"

definition CORE_ENTITY_TYPES :: "string set" where
  "CORE_ENTITY_TYPES = {''product'', ''organization'', ''technology''}"

definition top_article_entity :: "article_signature \<Rightarrow> article_entity option" where
  "top_article_entity a =
     (case sorted_reverse (\<lambda>x. case relevance_score x of None \<Rightarrow> 0 | Some r \<Rightarrow> r)
             (primary_entities a) of
        [] \<Rightarrow> None | e # _ \<Rightarrow> Some e)"

definition top_group_entity :: "group_signature \<Rightarrow> group_entity option" where
  "top_group_entity g =
     (case sorted_reverse
             (\<lambda>x. (case frequency x of None \<Rightarrow> 0 | Some f \<Rightarrow> f)
                 * (case avg_relevance x of None \<Rightarrow> 0 | Some r \<Rightarrow> r))
             (g_primary_entities g) of
        [] \<Rightarrow> None | e # _ \<Rightarrow> Some e)"

definition calc_core_entity_bonus :: "article_signature \<Rightarrow> group_signature \<Rightarrow> real" where
  "calc_core_entity_bonus a g =
     (case (top_article_entity a, top_group_entity g) of
        (Some ta, Some tg) \<Rightarrow>
          (if entity_id ta = g_entity_id tg
              \<and> (case entity_type ta of None \<Rightarrow> False | Some t \<Rightarrow> t \<in> CORE_ENTITY_TYPES)
           then CORE_ENTITY_BONUS else 0)
      | _ \<Rightarrow> 0)"

subsection \<open>The scorer\<close>

definition calculate_article_to_group_similarity ::
  "article_signature \<Rightarrow> group_signature \<Rightarrow> similarity_results" where
  "calculate_article_to_group_similarity a g =
     (let es = calc_entity_similarity a g;
          cs = calc_company_similarity a g;
          vs = calc_cve_similarity a g;
          evs = calc_event_similarity a g;
          composite = es * 0.40 + cs * 0.25 + vs * 0.15 + evs * 0.10;
          temporal = calc_temporal_adjustment (published_date a) (latest_published_date g);
          sb = calc_source_bonus a g;
          cb = calc_core_entity_bonus a g;
          adjusted_score = composite + temporal + sb + cb;
          final_score = max 0.0 (min 1.0 adjusted_score)
      in \<lparr> entity_similarity = es, company_similarity = cs, cve_similarity = vs,
           event_similarity = evs, composite_score = final_score,
           temporal_adjustment = temporal, source_bonus = sb, core_entity_bonus = cb,
           base_composite_score = composite \<rparr>)"

section \<open>analysis/two_phase_grouping.py\<close>

text \<open>
  A group dictionary as \<^verbatim>\<open>get_existing_groups\<close> builds it. \<^verbatim>\<open>main_topic\<close> is read with
  \<^verbatim>\<open>.get\<close>, so it may be missing.
\<close>

record group_dict =
  group_id :: int
  main_topic :: "string option"
  group_label :: string
  article_ids :: "int list"

text \<open>
  The rules dictionary. \<^verbatim>\<open>"base"\<close>, \<^verbatim>\<open>"category_adjust"\<close> and \<^verbatim>\<open>"size_adjust"\<close> may each be
  missing; inside \<^verbatim>\<open>"size_adjust"\<close> a missing list reads as the empty list.
\<close>

record size_adjust_rules =
  breakpoints :: "int list"
  adjustments :: "real list"

record threshold_rules =
  base :: "real option"
  category_adjust :: "(string \<times> real) list option"
  size_adjust :: "size_adjust_rules option"

definition DEFAULT_SIMILARITY_THRESHOLD :: real where
  "DEFAULT_SIMILARITY_THRESHOLD = 0.40"

definition DYNAMIC_THRESHOLD_RULES :: threshold_rules where
  "DYNAMIC_THRESHOLD_RULES =
     \<lparr> base = Some DEFAULT_SIMILARITY_THRESHOLD,
       category_adjust = Some
         [(''Cybersecurity & Data Privacy'', 0.05),
          (''Artificial Intelligence & Machine Learning'', 0.03),
          (''Other'', - 0.03)],
       size_adjust = Some \<lparr> breakpoints = [1, 5, 10],
                              adjustments = [0.05, 0.0, - 0.03, - 0.05] \<rparr> \<rparr>"





subsection \<open>The dynamic threshold\<close>

text \<open>
  \<^verbatim>\<open>for i, bp in enumerate(breakpoints): if group_size > bp: adj_index = i + 1 else: break\<close>.
  The arguments are the size, the index \<open>i\<close>, the breakpoints still to visit and the
  current \<open>adj_index\<close>.
\<close>

fun adj_index_loop :: "int \<Rightarrow> nat \<Rightarrow> int list \<Rightarrow> nat \<Rightarrow> nat" where
  "adj_index_loop group_size i [] adj_index = adj_index"
| "adj_index_loop group_size i (bp # bps) adj_index =
     (if group_size > bp then adj_index_loop group_size (i + 1) bps (i + 1) else adj_index)"

definition calculate_dynamic_threshold :: "group_dict \<Rightarrow> real \<Rightarrow> threshold_rules \<Rightarrow> real" where
  "calculate_dynamic_threshold g base_threshold rules =
     (let category = main_topic g;
          group_size = int (length (article_ids g));
          threshold1 =
            (case category_adjust rules of
               Some ca \<Rightarrow>
                 (if truthy category
                  then base_threshold + (case map_of ca (the category) of None \<Rightarrow> 0.0 | Some x \<Rightarrow> x)
                  else base_threshold)
             | None \<Rightarrow> base_threshold);
          threshold2 =
            (case size_adjust rules of
               Some sa \<Rightarrow>
                 (if length (adjustments sa) = length (breakpoints sa) + 1
                  then threshold1 + adjustments sa ! adj_index_loop group_size 0 (breakpoints sa) 0
                  else threshold1)
             | None \<Rightarrow> threshold1)
      in max 0.1 (min 0.9 threshold2))"

subsection \<open>Scoring every group\<close>



subsection \<open>The decision\<close>






section \<open>The membership table\<close>

text \<open>
  \<^verbatim>\<open>two_phase_article_group_memberships\<close>: rows \<open>(article_id, group_id)\<close> in storage order.
  Its primary key is the pair, so the schema alone lets an article sit in several groups.
\<close>

type_synonym memberships = "(int \<times> int) list"

datatype sqlite_error = IntegrityError

datatype sql_stmt =
    SELECT_group_of int
  | DELETE_memberships_of int
  | INSERT_membership int int

text \<open>
  \<^verbatim>\<open>SELECT group_id FROM ... WHERE article_id = ?\<close>. SQLite answers it from the index of
  the primary key \<open>(article_id, group_id)\<close>, so the article's rows come in ascending order
  of group id, whatever their storage order.
\<close>

definition select_group_ids :: "memberships \<Rightarrow> int \<Rightarrow> int list" where
  "select_group_ids t a = sort (map snd (filter (\<lambda>r. fst r = a) t))"

text \<open>\<^verbatim>\<open>cursor.fetchone()\<close>: the first row of the result, or \<^verbatim>\<open>None\<close>.\<close>

definition fetchone :: "'a list \<Rightarrow> 'a option" where
  "fetchone rows = (case rows of [] \<Rightarrow> None | r # _ \<Rightarrow> Some r)"

text \<open>\<^verbatim>\<open>DELETE FROM ... WHERE article_id = ?\<close>\<close>

definition delete_memberships_of :: "memberships \<Rightarrow> int \<Rightarrow> memberships" where
  "delete_memberships_of t a = filter (\<lambda>r. fst r \<noteq> a) t"

text \<open>
  \<^verbatim>\<open>INSERT INTO ... (article_id, group_id) VALUES (?, ?)\<close>: refused when the primary key
  exists already.
\<close>

definition insert_membership :: "memberships \<Rightarrow> int \<Rightarrow> int \<Rightarrow> sqlite_error + memberships" where
  "insert_membership t a g = (if (a, g) \<in> set t then Inl IntegrityError else Inr (t @ [(a, g)]))"

text \<open>The invariant of the data model: no article has two membership rows.\<close>

definition at_most_one_group :: "memberships \<Rightarrow> bool" where
  "at_most_one_group t = distinct (map fst t)"

section \<open>enhanced_grouping.py: add_article_to_group\<close>

text \<open>
  What a call leaves behind: the value returned, the table as the connection sees it when
  the call returns, and the statements executed, each with the table right after it.
\<close>

record add_result =
  returned :: bool
  final_table :: memberships
  executed :: "(sql_stmt \<times> memberships) list"

text \<open>
  \<^verbatim>\<open>add_article_to_group(article_id, group_id, db_path, cursor)\<close>. The first argument says
  whether the function opened the connection itself (\<^verbatim>\<open>cursor is None\<close>): then an error
  rolls its statements back, otherwise they stay for the caller to commit or roll back.
\<close>

definition add_article_to_group :: "bool \<Rightarrow> int \<Rightarrow> int \<Rightarrow> memberships \<Rightarrow> add_result" where
  "add_article_to_group conn_managed_here a g t =
     (let existing_group = fetchone (select_group_ids t a);
          sel = (SELECT_group_of a, t)
      in if existing_group = Some g
         then \<lparr> returned = True, final_table = t, executed = [sel] \<rparr>
         else
           (let t1 = (if existing_group = None then t else delete_memberships_of t a);
                del = (if existing_group = None then [] else [(DELETE_memberships_of a, t1)])
            in case insert_membership t1 a g of
                 Inr t2 \<Rightarrow>
                   \<lparr> returned = True, final_table = t2,
                     executed = sel # del @ [(INSERT_membership a g, t2)] \<rparr>
               | Inl e \<Rightarrow>
                   \<lparr> returned = False,
                     final_table = (if conn_managed_here then t else t1),
                     executed = sel # del \<rparr>))"

section \<open>db/database.py: insert_entity\<close>

text \<open>
  A row of \<^verbatim>\<open>entity_profiles\<close>. Timestamps are instants in seconds; the description is
  nullable. The table keeps the AUTOINCREMENT counter beside its rows.
\<close>

record entity_profile =
  ep_entity_id :: int
  ep_entity_name :: string
  ep_entity_type :: string
  ep_description :: "string option"
  ep_first_seen :: int
  ep_last_seen :: int
  ep_mention_count :: int
  ep_created_at :: int
  ep_updated_at :: int

record entity_profiles =
  ep_rows :: "entity_profile list"
  ep_sequence :: int

text \<open>SQL's \<^verbatim>\<open>COALESCE(x, y)\<close>: the first argument that is not NULL.\<close>

definition COALESCE :: "'a option \<Rightarrow> 'a option \<Rightarrow> 'a option" where
  "COALESCE x y = (case x of Some v \<Rightarrow> Some v | None \<Rightarrow> y)"

text \<open>The \<^verbatim>\<open>UPDATE\<close> of the hit branch, on one row.\<close>

definition bump_entity :: "string option \<Rightarrow> int \<Rightarrow> entity_profile \<Rightarrow> entity_profile" where
  "bump_entity description now r =
     r\<lparr> ep_mention_count := ep_mention_count r + 1,
        ep_last_seen := now,
        ep_updated_at := now,
        ep_description := COALESCE description (ep_description r) \<rparr>"

text \<open>
  \<^verbatim>\<open>insert_entity(entity_name, entity_type, description)\<close> at the instant \<open>now\<close>
  (\<^verbatim>\<open>CURRENT_TIMESTAMP\<close>): the entity id returned and the table afterwards. The first two
  arguments are written \<open>e_name\<close> and \<open>e_type\<close> here.
\<close>

definition insert_entity ::
  "string \<Rightarrow> string \<Rightarrow> string option \<Rightarrow> int \<Rightarrow> entity_profiles \<Rightarrow> int option \<times> entity_profiles" where
  "insert_entity e_name e_type description now tbl =
     (case fetchone (map ep_entity_id
             (filter (\<lambda>r. ep_entity_name r = e_name \<and> ep_entity_type r = e_type)
                (ep_rows tbl))) of
        Some existing_id \<Rightarrow>
          (Some existing_id,
           tbl\<lparr> ep_rows :=
                 map (\<lambda>r. if ep_entity_id r = existing_id then bump_entity description now r else r)
                   (ep_rows tbl) \<rparr>)
      | None \<Rightarrow>
          (let lastrowid = ep_sequence tbl + 1 in
           (Some lastrowid,
            \<lparr> ep_rows = ep_rows tbl @
                 [\<lparr> ep_entity_id = lastrowid, ep_entity_name = e_name,
                    ep_entity_type = e_type, ep_description = description,
                    ep_first_seen = now, ep_last_seen = now, ep_mention_count = 1,
                    ep_created_at = now, ep_updated_at = now \<rparr>],
              ep_sequence = lastrowid \<rparr>)))"

text \<open>The row stored under an entity id.\<close>

definition entity_row :: "entity_profiles \<Rightarrow> int \<Rightarrow> entity_profile option" where
  "entity_row tbl i = find (\<lambda>r. ep_entity_id r = i) (ep_rows tbl)"

section \<open>analysis/group_merging.py\<close>

text \<open>
  The part of the store a merge pass touches: the rows of \<^verbatim>\<open>two_phase_article_groups\<close>
  (id, main topic and label; the pass rewrites label, description and
  \<^verbatim>\<open>updated_at\<close> of a surviving row, which changes no id), the membership table, and
  whether the connection enforces foreign keys (\<^verbatim>\<open>ON DELETE CASCADE\<close> acts only then;
  no connection the repository opens issues \<^verbatim>\<open>PRAGMA foreign_keys = ON\<close>, and SQLite's
  default is off).
\<close>

record group_row =
  row_group_id :: int
  row_main_topic :: string
  row_group_label :: string

record store =
  group_rows :: "group_row list"
  membership_rows :: memberships
  foreign_keys :: bool

text \<open>
  \<^verbatim>\<open>get_existing_groups\<close>: every group row with the article ids of its membership rows.
\<close>

definition get_existing_groups :: "store \<Rightarrow> group_dict list" where
  "get_existing_groups db =
     map (\<lambda>r. \<lparr> group_id = row_group_id r, main_topic = Some (row_main_topic r),
                 group_label = row_group_label r,
                 article_ids = map fst (filter (\<lambda>m. snd m = row_group_id r) (membership_rows db)) \<rparr>)
       (group_rows db)"

text \<open>
  \<^verbatim>\<open>INSERT OR IGNORE INTO memberships (article_id, group_id) SELECT article_id, ? FROM
  memberships WHERE group_id = ?\<close>: each selected row is inserted unless its key exists.
\<close>

definition insert_or_ignore :: "memberships \<Rightarrow> int \<times> int \<Rightarrow> memberships" where
  "insert_or_ignore t r = (if r \<in> set t then t else t @ [r])"

definition reassign_articles :: "memberships \<Rightarrow> int \<Rightarrow> int \<Rightarrow> memberships" where
  "reassign_articles t surviving_group_id deleted_group_id =
     fold (\<lambda>r acc. insert_or_ignore acc (fst r, surviving_group_id))
       (filter (\<lambda>r. snd r = deleted_group_id) t) t"

text \<open>The three statements of the merge transaction, committed.\<close>

definition merge_transaction :: "int \<Rightarrow> int \<Rightarrow> store \<Rightarrow> store" where
  "merge_transaction surviving_group_id deleted_group_id db =
     (let t1 = reassign_articles (membership_rows db) surviving_group_id deleted_group_id;
          rows1 = filter (\<lambda>r. row_group_id r \<noteq> deleted_group_id) (group_rows db);
          t2 = (if foreign_keys db then filter (\<lambda>r. snd r \<noteq> deleted_group_id) t1 else t1)
      in db\<lparr> group_rows := rows1, membership_rows := t2 \<rparr>)"

text \<open>
  What the pass depends on outside its own control flow: whether the import of
  \<^verbatim>\<open>enhanced_grouping\<close> succeeded, \<^verbatim>\<open>generate_group_signature\<close> (\<open>None\<close> for a falsy
  result), \<^verbatim>\<open>_calculate_group_similarity\<close> (\<open>None\<close> when it raises, which ends the pass
  with the exception), and whether the merge transaction of a pair hits a
  \<^verbatim>\<open>sqlite3.Error\<close>.
\<close>

record merge_env =
  enhanced_grouping_imported :: bool
  generate_group_signature :: "group_dict \<Rightarrow> group_signature option"
  calculate_group_similarity :: "group_signature \<Rightarrow> group_signature \<Rightarrow> real option"
  transaction_fails :: "int \<Rightarrow> int \<Rightarrow> bool"

text \<open>
  The state of a pass. \<open>merge_log\<close> lists the committed merges in order, each as
  \<open>(surviving_group_id, deleted_group_id)\<close>, as the "Successfully merged" log lines do;
  \<open>raised\<close> says that an exception left the function.
\<close>

record merge_state =
  processed_group_ids :: "int set"
  merged_pairs_count :: nat
  errors :: nat
  merge_log :: "(int \<times> int) list"
  db_state :: store
  raised :: bool

text \<open>
  The body of the inner loop once a pair reaches the merge threshold: group A survives,
  group B is deleted. The loop breaks after it whether the transaction committed or not.
\<close>

definition merge_pair :: "merge_env \<Rightarrow> group_dict \<Rightarrow> group_dict \<Rightarrow> merge_state \<Rightarrow> merge_state" where
  "merge_pair env group_a_dict group_b_dict st =
     (let surviving_group_id = group_id group_a_dict;
          deleted_group_id = group_id group_b_dict
      in if transaction_fails env surviving_group_id deleted_group_id
         then st\<lparr> errors := errors st + 1 \<rparr>
         else st\<lparr> db_state := merge_transaction surviving_group_id deleted_group_id (db_state st),
                  merged_pairs_count := merged_pairs_count st + 1,
                  processed_group_ids :=
                    insert deleted_group_id (insert surviving_group_id (processed_group_ids st)),
                  merge_log := merge_log st @ [(surviving_group_id, deleted_group_id)] \<rparr>)"

text \<open>
  \<^verbatim>\<open>for j in range(i + 1, len(groups_with_signatures))\<close>: group A against the groups after
  it in the list.
\<close>

fun inner_loop ::
  "merge_env \<Rightarrow> real \<Rightarrow> group_dict \<times> group_signature \<Rightarrow> (group_dict \<times> group_signature) list
     \<Rightarrow> merge_state \<Rightarrow> merge_state" where
  "inner_loop env merge_threshold a [] st = st"
| "inner_loop env merge_threshold (group_a_dict, group_a_sig) ((group_b_dict, group_b_sig) # rest) st =
     (if group_id group_a_dict \<in> processed_group_ids st
         \<or> group_id group_b_dict \<in> processed_group_ids st
      then inner_loop env merge_threshold (group_a_dict, group_a_sig) rest st
      else (case calculate_group_similarity env group_a_sig group_b_sig of
              None \<Rightarrow> st\<lparr> raised := True \<rparr>
            | Some similarity \<Rightarrow>
                if similarity \<ge> merge_threshold
                then merge_pair env group_a_dict group_b_dict st
                else inner_loop env merge_threshold (group_a_dict, group_a_sig) rest st))"

text \<open>\<^verbatim>\<open>for i in range(len(groups_with_signatures))\<close>\<close>

fun outer_loop ::
  "merge_env \<Rightarrow> real \<Rightarrow> (group_dict \<times> group_signature) list \<Rightarrow> merge_state \<Rightarrow> merge_state" where
  "outer_loop env merge_threshold [] st = st"
| "outer_loop env merge_threshold (a # rest) st =
     (let st1 = inner_loop env merge_threshold a rest st
      in if raised st1 then st1 else outer_loop env merge_threshold rest st1)"

text \<open>The groups that enter the comparison: those with articles and a signature.\<close>

fun groups_with_signatures :: "merge_env \<Rightarrow> group_dict list \<Rightarrow> (group_dict \<times> group_signature) list" where
  "groups_with_signatures env [] = []"
| "groups_with_signatures env (g # gs) =
     (if article_ids g \<noteq> []
      then (case generate_group_signature env g of
              Some group_sig \<Rightarrow> (g, group_sig) # groups_with_signatures env gs
            | None \<Rightarrow> groups_with_signatures env gs)
      else groups_with_signatures env gs)"

definition merge_similar_groups :: "merge_env \<Rightarrow> real \<Rightarrow> store \<Rightarrow> merge_state" where
  "merge_similar_groups env merge_threshold db =
     (let st0 = \<lparr> processed_group_ids = {}, merged_pairs_count = 0, errors = 0,
                  merge_log = [], db_state = db, raised = False \<rparr>;
          groups = get_existing_groups db
      in if \<not> enhanced_grouping_imported env then st0\<lparr> errors := 1 \<rparr>
         else if length groups < 2 then st0
         else outer_loop env merge_threshold (groups_with_signatures env groups) st0)"

section \<open>The specification's formulas\<close>

text \<open>
  The temporal adjustment as the specification words it, for a gap of \<open>dh\<close> hours.
\<close>

definition spec_temporal_adjustment :: "real \<Rightarrow> real" where
  "spec_temporal_adjustment dh =
     (if dh \<le> 48 then 0.05 * (1 - dh / 48)
      else if dh > 168 then - 0.03 * min (dh / 168 - 1) 1
      else 0)"

text \<open>The category offset and the size-bucket offset of the specification's table.\<close>

definition spec_category_offset :: "string option \<Rightarrow> real" where
  "spec_category_offset c =
     (if c = Some ''Cybersecurity & Data Privacy'' then 0.05
      else if c = Some ''Artificial Intelligence & Machine Learning'' then 0.03
      else if c = Some ''Other'' then - 0.03
      else 0)"

definition spec_size_offset :: "nat \<Rightarrow> real" where
  "spec_size_offset n =
     (if n \<le> 1 then 0.05 else if n \<le> 5 then 0.0 else if n \<le> 10 then - 0.03 else - 0.05)"

section \<open>Well-formed scores\<close>

text \<open>
  A relevance or a frequency lies in [0, 1] when it is present (a missing one is replaced
  by the scorer's default).
\<close>

definition in_unit :: "real option \<Rightarrow> bool" where
  "in_unit x = (case x of None \<Rightarrow> True | Some v \<Rightarrow> 0 \<le> v \<and> v \<le> 1)"

definition event_frequencies_in_unit :: "group_signature \<Rightarrow> bool" where
  "event_frequencies_in_unit g = list_all (\<lambda>e. in_unit (item_frequency e)) (g_events g)"

text \<open>
  The relevance of every article entity, the average relevance and frequency of every
  group entity, and the frequency of every group event lie in [0, 1].
\<close>

definition scores_in_unit :: "article_signature \<Rightarrow> group_signature \<Rightarrow> bool" where
  "scores_in_unit a g =
     (list_all (\<lambda>e. in_unit (relevance_score e)) (primary_entities a)
      \<and> list_all (\<lambda>e. in_unit (avg_relevance e) \<and> in_unit (frequency e)) (g_primary_entities g)
      \<and> event_frequencies_in_unit g)"


section \<open>The log of a merge pass\<close>

text \<open>Every group id a list of merges mentions, survivors and deleted groups alike.\<close>

definition merge_ids :: "(int \<times> int) list \<Rightarrow> int list" where
  "merge_ids ms = concat (map (\<lambda>p. [fst p, snd p]) ms)"

text \<open>
  What holds between the iterations of a pass: no id occurs twice in the merges made so
  far, the processed set holds exactly the ids merged so far, and the counter counts them.
\<close>

definition pass_invariant :: "merge_state \<Rightarrow> bool" where
  "pass_invariant st =
     (distinct (merge_ids (merge_log st))
      \<and> set (merge_ids (merge_log st)) = processed_group_ids st
      \<and> merged_pairs_count st = length (merge_log st))"

section \<open>Example inputs\<close>

text \<open>
  An article with no primary entity, company or CVE, published six hours after the
  latest article of a group that already holds an article of the same source.
\<close>

definition example_article :: article_signature where
  "example_article =
     \<lparr> article_id = 1, published_date = Instant 21600, source = Some ''bleepingcomputer'',
       primary_entities = [], companies = [], cves = [], events = [] \<rparr>"

definition example_group_signature :: group_signature where
  "example_group_signature =
     \<lparr> sig_group_id = 10, latest_published_date = Instant 0,
       member_sources = [''bleepingcomputer''],
       g_primary_entities = [], g_companies = [], g_cves = [], g_events = [] \<rparr>"

text \<open>A group of seven articles in the category \<open>Other\<close>.\<close>

definition example_group :: group_dict where
  "example_group =
     \<lparr> group_id = 10, main_topic = Some ''Other'', group_label = ''Misc'',
       article_ids = [1, 2, 3, 4, 5, 6, 7] \<rparr>"

text \<open>An entity table with one row, whose description is already filled in.\<close>

definition example_entity_row :: entity_profile where
  "example_entity_row =
     \<lparr> ep_entity_id = 3, ep_entity_name = ''Acme'', ep_entity_type = ''organization'',
       ep_description = Some ''old'', ep_first_seen = 10, ep_last_seen = 20,
       ep_mention_count = 4, ep_created_at = 10, ep_updated_at = 20 \<rparr>"

definition example_entities :: entity_profiles where
  "example_entities = \<lparr> ep_rows = [example_entity_row], ep_sequence = 3 \<rparr>"

text \<open>
  An article about Acme Corp and CVE-2024-1234, and the signature of a one-article group
  on the same entity, company and CVE.
\<close>

definition example_cve_article :: article_signature where
  "example_cve_article =
     \<lparr> article_id = 2, published_date = Instant 21600, source = Some ''bleepingcomputer'',
       primary_entities =
         [\<lparr> entity_id = 7, entity_name = Some ''Acme Corp'', entity_type = Some ''organization'',
            relevance_score = Some 0.9 \<rparr>],
       companies = [''Acme Corp''], cves = [''CVE-2024-1234''], events = [] \<rparr>"

definition example_cve_group_signature :: group_signature where
  "example_cve_group_signature =
     \<lparr> sig_group_id = 11, latest_published_date = Instant 0,
       member_sources = [''bleepingcomputer''],
       g_primary_entities =
         [\<lparr> g_entity_id = 7, g_entity_name = Some ''Acme Corp'',
            g_entity_type = Some ''organization'', frequency = Some 1, avg_relevance = Some 0.9 \<rparr>],
       g_companies = [\<lparr> item_name = Some ''Acme Corp'', item_frequency = Some 1 \<rparr>],
       g_cves = [\<lparr> item_name = Some ''CVE-2024-1234'', item_frequency = Some 1 \<rparr>],
       g_events = [] \<rparr>"

text \<open>
  A store with three groups: group 1 holds one article, group 2 holds two, group 3 one.
  In the environment every signature exists, every pair of groups is rated 0.72 and no
  transaction fails.
\<close>

definition example_store :: store where
  "example_store =
     \<lparr> group_rows =
         [\<lparr> row_group_id = 1, row_main_topic = ''Other'',
            row_group_label = ''GPT-5 launch reactions'' \<rparr>,
          \<lparr> row_group_id = 2, row_main_topic = ''Other'',
            row_group_label = ''OpenAI GPT-5 release'' \<rparr>,
          \<lparr> row_group_id = 3, row_main_topic = ''Other'',
            row_group_label = ''GPT-5 benchmarks'' \<rparr>],
       membership_rows = [(100, 1), (101, 2), (102, 2), (103, 3)],
       foreign_keys = False \<rparr>"

definition example_env :: merge_env where
  "example_env =
     \<lparr> enhanced_grouping_imported = True,
       generate_group_signature = (\<lambda>g. Some example_group_signature),
       calculate_group_similarity = (\<lambda>a b. Some 0.72),
       transaction_fails = (\<lambda>s d. False) \<rparr>"

section \<open>Token estimate\<close>

text \<open>
  C9 (as stated): the token estimate is \<open>round(word_count * 1.3)\<close>. It is not: \<^verbatim>\<open>int\<close>
  truncates. Two words give \<open>int(2.6) = 2\<close>, while \<open>round(2.6) = 3\<close>.
\<close>

theorem C9_round_counterexample:
  "approximate_tokens (codepoints ''a b'')
     \<noteq> round (real (length (str_split (codepoints ''a b''))) * 1.3)"
  by (simp add: approximate_tokens_def str_split_def codepoints_def isspace_def py_int_def
      round_def)

text \<open>
  C9 (amended): for every text the token estimate is the word count times 1.3 rounded
  down, that is \<open>13 * word_count div 10\<close>, where the word count is the number of
  whitespace-separated words.
\<close>

theorem C9_approximate_tokens_floor:
  "approximate_tokens text = \<lfloor>real (length (str_split text)) * 1.3\<rfloor>
   \<and> approximate_tokens text = (13 * int (length (str_split text))) div 10"
proof -
  let ?n = "length (str_split text)"
  have a: "approximate_tokens text = \<lfloor>real ?n * 1.3\<rfloor>"
    by (simp add: approximate_tokens_def py_int_def)
  have "real ?n * 1.3 = real_of_int (13 * int ?n) / real_of_int 10" by simp
  then have "\<lfloor>real ?n * 1.3\<rfloor> = (13 * int ?n) div 10"
    by (simp only: floor_divide_of_int_eq)
  with a show ?thesis by simp
qed

theorem C9_approximate_tokens_floor_witness:
  "approximate_tokens (codepoints ''the quick  brown fox'') = 5
   \<and> approximate_tokens [97, 160, 98] = 2"
  using C9_approximate_tokens_floor [of "codepoints ''the quick  brown fox''"]
    C9_approximate_tokens_floor [of "[97, 160, 98]"]
  by (simp add: str_split_def codepoints_def isspace_def)

section \<open>Temporal adjustment\<close>

lemma spec_temporal_adjustment_bound:
  assumes "0 \<le> h"
  shows "\<bar>spec_temporal_adjustment h\<bar> \<le> 0.05"
proof -
  consider "h \<le> 48" | "48 < h" "h \<le> 168" | "168 < h" by linarith
  then show ?thesis
  proof cases
    case 1
    then show ?thesis using assms by (simp add: spec_temporal_adjustment_def abs_if field_simps)
  next
    case 2
    then show ?thesis by (simp add: spec_temporal_adjustment_def)
  next
    case 3
    define m where "m = min (h / 168 - 1) 1"
    have m: "0 \<le> m" "m \<le> 1" using 3 by (simp_all add: m_def)
    have "spec_temporal_adjustment h = - 0.03 * m"
      using 3 by (simp add: spec_temporal_adjustment_def m_def)
    then show ?thesis using m by (simp add: abs_if)
  qed
qed

lemma calc_temporal_adjustment_Instant:
  "calc_temporal_adjustment (Instant x) (Instant y) = spec_temporal_adjustment (\<bar>x - y\<bar> / 3600)"
  by (simp add: calc_temporal_adjustment_def spec_temporal_adjustment_def Let_def)

lemma calc_temporal_adjustment_bound: "\<bar>calc_temporal_adjustment d1 d2\<bar> \<le> 0.05"
proof (cases d1)
  case (Instant x)
  show ?thesis
  proof (cases d2)
    case (Instant y)
    with \<open>d1 = Instant x\<close> show ?thesis
      using spec_temporal_adjustment_bound [of "\<bar>x - y\<bar> / 3600"]
      by (simp add: calc_temporal_adjustment_Instant)
  qed (simp_all add: calc_temporal_adjustment_def \<open>d1 = Instant x\<close>)
qed (simp_all add: calc_temporal_adjustment_def)

lemma temporal_adjustment_scorer:
  "temporal_adjustment (calculate_article_to_group_similarity a g) =
     calc_temporal_adjustment (published_date a) (latest_published_date g)"
  by (simp add: calculate_article_to_group_similarity_def Let_def)

text \<open>
  C6: when both dates parse, to the instants \<open>x\<close> and \<open>y\<close> (in seconds), the temporal
  adjustment the scorer reports is the specification's formula at
  \<open>\<Delta>h = |x - y| / 3600\<close>; and whatever the two date fields hold, its absolute value is
  at most 0.05.
\<close>

theorem C6_temporal_adjustment:
  "temporal_adjustment
     (calculate_article_to_group_similarity
        (a\<lparr> published_date := Instant x \<rparr>) (g\<lparr> latest_published_date := Instant y \<rparr>))
     = spec_temporal_adjustment (\<bar>x - y\<bar> / 3600)
   \<and> \<bar>temporal_adjustment (calculate_article_to_group_similarity a g)\<bar> \<le> 0.05"
proof
  show "temporal_adjustment
     (calculate_article_to_group_similarity
        (a\<lparr> published_date := Instant x \<rparr>) (g\<lparr> latest_published_date := Instant y \<rparr>))
     = spec_temporal_adjustment (\<bar>x - y\<bar> / 3600)"
    by (simp add: temporal_adjustment_scorer calc_temporal_adjustment_Instant)
  show "\<bar>temporal_adjustment (calculate_article_to_group_similarity a g)\<bar> \<le> 0.05"
    unfolding temporal_adjustment_scorer by (rule calc_temporal_adjustment_bound)
qed

theorem C6_temporal_adjustment_witness:
  "temporal_adjustment
     (calculate_article_to_group_similarity example_article example_group_signature) = 0.04375"
  using C6_temporal_adjustment
    [where a = example_article and x = 21600 and g = example_group_signature and y = 0]
  by (simp add: example_article_def example_group_signature_def spec_temporal_adjustment_def)

section \<open>Dynamic threshold\<close>

lemma size_adjust_default:
  "[0.05, 0.0, - 0.03, - 0.05 :: real] ! adj_index_loop (int n) 0 [1, 5, 10] 0 = spec_size_offset n"
  by (simp add: spec_size_offset_def)

lemma category_adjust_default:
  "(if truthy c
    then b + (case map_of [(''Cybersecurity & Data Privacy'', 0.05),
          (''Artificial Intelligence & Machine Learning'', 0.03),
          (''Other'', - 0.03)] (the c) of None \<Rightarrow> 0.0 | Some x \<Rightarrow> x)
    else b) = b + spec_category_offset c"
  by (cases c) (auto simp add: truthy_def spec_category_offset_def)

lemma calculate_dynamic_threshold_default:
  "calculate_dynamic_threshold g b DYNAMIC_THRESHOLD_RULES =
     clamp 0.10 0.90
       (b + spec_category_offset (main_topic g) + spec_size_offset (length (article_ids g)))"
  unfolding calculate_dynamic_threshold_def DYNAMIC_THRESHOLD_RULES_def clamp_def Let_def
  by (simp only: threshold_rules.simps size_adjust_rules.simps option.simps
      category_adjust_default size_adjust_default list.size) simp

text \<open>
  C7: under the default rules the dynamic threshold of a group is the base threshold plus
  the category offset (+0.05 Cybersecurity and Data Privacy, +0.03 Artificial Intelligence
  and Machine Learning, -0.03 Other, 0 otherwise) plus the size offset (+0.05 up to one
  member, 0 for 2 to 5, -0.03 for 6 to 10, -0.05 above 10), clamped to [0.10, 0.90]; the
  default base is 0.40.
\<close>

theorem C7_dynamic_threshold:
  "calculate_dynamic_threshold g b DYNAMIC_THRESHOLD_RULES =
     clamp 0.10 0.90
       (b + spec_category_offset (main_topic g) + spec_size_offset (length (article_ids g)))
   \<and> base DYNAMIC_THRESHOLD_RULES = Some 0.40"
  by (simp add: calculate_dynamic_threshold_default)
    (simp add: DYNAMIC_THRESHOLD_RULES_def DEFAULT_SIMILARITY_THRESHOLD_def)

theorem C7_dynamic_threshold_witness:
  "calculate_dynamic_threshold example_group 0.40 DYNAMIC_THRESHOLD_RULES = 0.34"
  using C7_dynamic_threshold [of example_group "0.40"]
  by (simp add: example_group_def clamp_def spec_category_offset_def spec_size_offset_def)

section \<open>Membership of an article\<close>

lemma filter_fst_distinct:
  "distinct (map fst t) \<Longrightarrow>
     filter (\<lambda>r. fst r = a) t = [] \<or> (\<exists>g. filter (\<lambda>r. fst r = a) t = [(a, g)])"
proof (induction t)
  case Nil
  then show ?case by simp
next
  case (Cons r t)
  show ?case
  proof (cases "fst r = a")
    case True
    with Cons.prems have "a \<notin> fst ` set t" by auto
    then have "filter (\<lambda>r. fst r = a) t = []" by (auto simp: filter_empty_conv)
    with True show ?thesis by (cases r) auto
  next
    case False
    with Cons show ?thesis by auto
  qed
qed

lemma select_cases:
  "at_most_one_group t \<Longrightarrow>
     select_group_ids t a = []
     \<or> (\<exists>g. select_group_ids t a = [g] \<and> filter (\<lambda>r. fst r = a) t = [(a, g)])"
  using filter_fst_distinct [of t a] by (auto simp: at_most_one_group_def select_group_ids_def)

lemma set_select_group_ids: "set (select_group_ids t a) = {g. (a, g) \<in> set t}"
  by (auto simp: select_group_ids_def image_iff)

lemma sorted_select_group_ids: "sorted (select_group_ids t a)"
  by (simp add: select_group_ids_def)

lemma select_empty_iff: "select_group_ids t a = [] \<longleftrightarrow> a \<notin> fst ` set t"
proof -
  have "select_group_ids t a = [] \<longleftrightarrow> set (select_group_ids t a) = {}" by simp
  also have "\<dots> \<longleftrightarrow> a \<notin> fst ` set t" unfolding set_select_group_ids by force
  finally show ?thesis .
qed

text \<open>The row the SELECT returns first is the article's membership with the least group id.\<close>

lemma fetchone_select_iff:
  "fetchone (select_group_ids t a) = Some g \<longleftrightarrow>
     (a, g) \<in> set t \<and> (\<forall>g'. (a, g') \<in> set t \<longrightarrow> g \<le> g')"
proof (cases "select_group_ids t a")
  case Nil
  then have "a \<notin> fst ` set t" by (simp add: select_empty_iff)
  then have "(a, g) \<notin> set t" by force
  with Nil show ?thesis by (simp add: fetchone_def)
next
  case (Cons x xs)
  have s: "set (x # xs) = {g. (a, g) \<in> set t}" using set_select_group_ids [of t a] Cons by simp
  have o: "\<forall>y \<in> set xs. x \<le> y" using sorted_select_group_ids [of t a] Cons by simp
  have x: "(a, x) \<in> set t" using s by auto
  have least: "x \<le> g'" if "(a, g') \<in> set t" for g'
  proof -
    from that s have "g' \<in> set (x # xs)" by simp
    with o show ?thesis by auto
  qed
  show ?thesis
  proof
    assume "fetchone (select_group_ids t a) = Some g"
    with Cons have "g = x" by (simp add: fetchone_def)
    with x least show "(a, g) \<in> set t \<and> (\<forall>g'. (a, g') \<in> set t \<longrightarrow> g \<le> g')" by simp
  next
    assume h: "(a, g) \<in> set t \<and> (\<forall>g'. (a, g') \<in> set t \<longrightarrow> g \<le> g')"
    then have "x \<le> g" "g \<le> x" using least x by auto
    then show "fetchone (select_group_ids t a) = Some g" using Cons by (simp add: fetchone_def)
  qed
qed

lemma at_most_one_delete: "at_most_one_group t \<Longrightarrow> at_most_one_group (delete_memberships_of t a)"
  by (simp add: at_most_one_group_def delete_memberships_of_def distinct_map_filter)

lemma at_most_one_append:
  "at_most_one_group t \<Longrightarrow> a \<notin> fst ` set t \<Longrightarrow> at_most_one_group (t @ [(a, g)])"
  by (simp add: at_most_one_group_def)

lemma delete_notin: "a \<notin> fst ` set (delete_memberships_of t a)"
  by (auto simp: delete_memberships_of_def)

lemma select_append_new: "a \<notin> fst ` set t \<Longrightarrow> select_group_ids (t @ [(a, g)]) a = [g]"
proof -
  assume "a \<notin> fst ` set t"
  then have "filter (\<lambda>r. fst r = a) t = []" by (auto simp: filter_empty_conv)
  then show ?thesis by (simp add: select_group_ids_def)
qed

text \<open>The three paths of \<open>add_article_to_group\<close>: first attach, already there, move.\<close>

lemma add_new:
  assumes "select_group_ids t a = []"
  shows "add_article_to_group m a g t =
    \<lparr> returned = True, final_table = t @ [(a, g)],
      executed = [(SELECT_group_of a, t), (INSERT_membership a g, t @ [(a, g)])] \<rparr>"
proof -
  have "a \<notin> fst ` set t" using assms by (simp add: select_empty_iff)
  then have "(a, g) \<notin> set t" by force
  then show ?thesis using assms
    by (simp add: add_article_to_group_def fetchone_def insert_membership_def Let_def)
qed

lemma add_same:
  assumes "fetchone (select_group_ids t a) = Some g"
  shows "add_article_to_group m a g t =
    \<lparr> returned = True, final_table = t, executed = [(SELECT_group_of a, t)] \<rparr>"
  using assms by (simp add: add_article_to_group_def Let_def)

lemma add_move:
  assumes "fetchone (select_group_ids t a) = Some g'" "g' \<noteq> g"
  shows "add_article_to_group m a g t =
    \<lparr> returned = True, final_table = delete_memberships_of t a @ [(a, g)],
      executed = [(SELECT_group_of a, t), (DELETE_memberships_of a, delete_memberships_of t a),
                  (INSERT_membership a g, delete_memberships_of t a @ [(a, g)])] \<rparr>"
proof -
  have "(a, g) \<notin> set (delete_memberships_of t a)" using delete_notin [of a t] by force
  then show ?thesis using assms
    by (simp add: add_article_to_group_def insert_membership_def Let_def)
qed

lemma fetchone_None_iff: "fetchone xs = None \<longleftrightarrow> xs = []"
  by (cases xs) (simp_all add: fetchone_def)

text \<open>
  On a table in which every article has at most one row, \<open>add_article_to_group\<close> keeps that
  property after every statement, and the article ends in the target group alone.
\<close>

lemma add_article_to_group_keeps_at_most_one:
  assumes "at_most_one_group t"
  shows "returned (add_article_to_group m a g t)
       \<and> at_most_one_group (final_table (add_article_to_group m a g t))
       \<and> list_all (\<lambda>step. at_most_one_group (snd step)) (executed (add_article_to_group m a g t))
       \<and> select_group_ids (final_table (add_article_to_group m a g t)) a = [g]"
proof -
  consider "select_group_ids t a = []"
    | "select_group_ids t a = [g]"
    | g' where "select_group_ids t a = [g']" "g' \<noteq> g"
    using select_cases [OF assms, of a] by auto
  then show ?thesis
  proof cases
    case 1
    then have n: "a \<notin> fst ` set t" by (simp add: select_empty_iff)
    show ?thesis
      by (simp add: add_new [OF 1] assms at_most_one_append [OF assms n]
          select_append_new [OF n])
  next
    case 2
    then have f: "fetchone (select_group_ids t a) = Some g" by (simp add: fetchone_def)
    show ?thesis by (simp add: add_same [OF f] 2 assms)
  next
    case 3
    then have f: "fetchone (select_group_ids t a) = Some g'" by (simp add: fetchone_def)
    show ?thesis
      by (simp add: add_move [OF f 3(2)] assms at_most_one_delete [OF assms]
          at_most_one_append [OF at_most_one_delete [OF assms] delete_notin]
          select_append_new [OF delete_notin])
  qed
qed

lemma second_call_selects_target:
  "fetchone (select_group_ids (final_table (add_article_to_group m a g t)) a) = Some g"
proof (cases "fetchone (select_group_ids t a)")
  case None
  then have e: "select_group_ids t a = []" by (simp add: fetchone_None_iff)
  then have n: "a \<notin> fst ` set t" by (simp add: select_empty_iff)
  show ?thesis by (simp add: add_new [OF e] select_append_new [OF n] fetchone_def)
next
  case (Some g')
  show ?thesis
  proof (cases "g' = g")
    case True
    with Some show ?thesis by (simp add: add_same)
  next
    case False
    show ?thesis
      by (simp add: add_move [OF Some False] select_append_new [OF delete_notin] fetchone_def)
  qed
qed

text \<open>
  C4 (the code at a failing input): the claim gives every article at most one group
  membership at every instant. \<open>add_article_to_group\<close> keeps it so, but the merge pass
  does not: with foreign keys not enforced, deleting the merged group's row leaves its
  membership rows behind. In the example store, where every article has one membership,
  the pass merges group 2 into group 1 and articles 101 and 102 end with two rows each.
\<close>

theorem C4_merge_leaves_two_memberships:
  "at_most_one_group (membership_rows example_store)
   \<and> membership_rows (db_state (merge_similar_groups example_env 0.60 example_store)) =
       [(100, 1), (101, 2), (102, 2), (103, 3), (101, 1), (102, 1)]
   \<and> \<not> at_most_one_group
         (membership_rows (db_state (merge_similar_groups example_env 0.60 example_store)))"
  by (simp add: merge_similar_groups_def get_existing_groups_def example_store_def
      example_env_def Let_def merge_pair_def merge_transaction_def reassign_articles_def
      insert_or_ignore_def at_most_one_group_def)

text \<open>
  C10 (as stated): if the article is already a member of the target group, the call
  executes no DELETE and no INSERT and leaves the table unchanged. It does not when the
  article is also in a group with a smaller id: the SELECT returns that row first, the
  comparison with the target fails, and the call deletes both rows and inserts the
  target row again. Article 1 is in groups 5 and 7, the target is 7.
\<close>

theorem C10_member_of_two_groups_counterexample:
  "(1, 7) \<in> set [(1, 5), (1, 7)]
   \<and> map fst (executed (add_article_to_group False 1 7 [(1, 5), (1, 7)])) =
       [SELECT_group_of 1, DELETE_memberships_of 1, INSERT_membership 1 7]
   \<and> final_table (add_article_to_group False 1 7 [(1, 5), (1, 7)]) = [(1, 7)]
   \<and> final_table (add_article_to_group False 1 7 [(1, 5), (1, 7)]) \<noteq> [(1, 5), (1, 7)]"
  by (simp add: add_article_to_group_def fetchone_def select_group_ids_def
      delete_memberships_of_def insert_membership_def)

text \<open>
  C10 (amended): \<open>add_article_to_group\<close> returns True having executed only its SELECT,
  with the table unchanged, exactly when the article has a row for the target group and no
  row for a group with a smaller id (so in particular when the target group is its only
  membership). For every table, a second call with the same article and group is such a
  call: it returns True after its SELECT alone and leaves the table the first call
  produced.
\<close>

theorem C10_first_row_is_target_idempotent:
  "(add_article_to_group m a g t =
        \<lparr> returned = True, final_table = t, executed = [(SELECT_group_of a, t)] \<rparr>
      \<longleftrightarrow> (a, g) \<in> set t \<and> (\<forall>g'. (a, g') \<in> set t \<longrightarrow> g \<le> g'))
   \<and> add_article_to_group m a g (final_table (add_article_to_group m a g t)) =
        \<lparr> returned = True, final_table = final_table (add_article_to_group m a g t),
          executed = [(SELECT_group_of a, final_table (add_article_to_group m a g t))] \<rparr>"
proof
  show "add_article_to_group m a g t =
        \<lparr> returned = True, final_table = t, executed = [(SELECT_group_of a, t)] \<rparr>
      \<longleftrightarrow> (a, g) \<in> set t \<and> (\<forall>g'. (a, g') \<in> set t \<longrightarrow> g \<le> g')"
  proof (cases "fetchone (select_group_ids t a)")
    case None
    then have e: "select_group_ids t a = []" by (simp add: fetchone_None_iff)
    have "fetchone (select_group_ids t a) \<noteq> Some g" using None by simp
    then have "\<not> ((a, g) \<in> set t \<and> (\<forall>g'. (a, g') \<in> set t \<longrightarrow> g \<le> g'))"
      using fetchone_select_iff [of t a g] by blast
    then show ?thesis by (simp add: add_new [OF e])
  next
    case (Some g')
    show ?thesis
    proof (cases "g' = g")
      case True
      with Some have f: "fetchone (select_group_ids t a) = Some g" by simp
      then have "(a, g) \<in> set t \<and> (\<forall>g'. (a, g') \<in> set t \<longrightarrow> g \<le> g')"
        using fetchone_select_iff [of t a g] by blast
      then show ?thesis by (simp add: add_same [OF f])
    next
      case False
      have "fetchone (select_group_ids t a) \<noteq> Some g" using Some False by simp
      then have "\<not> ((a, g) \<in> set t \<and> (\<forall>g'. (a, g') \<in> set t \<longrightarrow> g \<le> g'))"
        using fetchone_select_iff [of t a g] by blast
      then show ?thesis by (simp add: add_move [OF Some False])
    qed
  qed
next
  show "add_article_to_group m a g (final_table (add_article_to_group m a g t)) =
        \<lparr> returned = True, final_table = final_table (add_article_to_group m a g t),
          executed = [(SELECT_group_of a, final_table (add_article_to_group m a g t))] \<rparr>"
    using second_call_selects_target by (rule add_same)
qed

theorem C10_first_row_is_target_idempotent_witness:
  "(1, 5) \<in> set [(1, 7), (1, 5), (2, 5)]
   \<and> add_article_to_group True 1 5 [(1, 7), (1, 5), (2, 5)] =
        \<lparr> returned = True, final_table = [(1, 7), (1, 5), (2, 5)],
          executed = [(SELECT_group_of 1, [(1, 7), (1, 5), (2, 5)])] \<rparr>
   \<and> add_article_to_group True 2 7 (final_table (add_article_to_group True 2 7 [(2, 5)])) =
        \<lparr> returned = True, final_table = [(2, 7)],
          executed = [(SELECT_group_of 2, [(2, 7)])] \<rparr>"
  using C10_first_row_is_target_idempotent
      [where m = True and a = 1 and g = 5 and t = "[(1, 7), (1, 5), (2, 5)]"]
    C10_first_row_is_target_idempotent
      [where m = True and a = 2 and g = 7 and t = "[(2, 5)]"]
  by (simp add: add_article_to_group_def fetchone_def select_group_ids_def
      delete_memberships_of_def insert_membership_def)

section \<open>Entity upsert\<close>

lemma filter_distinct_key:
  "distinct (map k xs) \<Longrightarrow> x \<in> set xs \<Longrightarrow> filter (\<lambda>r. k r = k x) xs = [x]"
proof (induction xs)
  case Nil
  then show ?case by simp
next
  case (Cons y ys)
  show ?case
  proof (cases "y = x")
    case True
    with Cons.prems have "k x \<notin> k ` set ys" by simp
    then have "filter (\<lambda>r. k r = k x) ys = []"
      unfolding filter_empty_conv by (metis imageI)
    with True show ?thesis by simp
  next
    case False
    with Cons.prems have "x \<in> set ys" "k y \<noteq> k x" by auto
    with Cons show ?thesis by simp
  qed
qed

lemma find_distinct_key:
  "distinct (map k xs) \<Longrightarrow> x \<in> set xs \<Longrightarrow> find (\<lambda>r. k r = k x) xs = Some x"
proof (induction xs)
  case Nil
  then show ?case by simp
next
  case (Cons y ys)
  show ?case
  proof (cases "y = x")
    case True
    then show ?thesis by simp
  next
    case False
    with Cons.prems have "x \<in> set ys" "k y \<noteq> k x" by auto
    with Cons show ?thesis by simp
  qed
qed

lemma find_map_preserving:
  "(\<And>x. P (f x) = P x) \<Longrightarrow> find P (map f xs) = map_option f (find P xs)"
  by (induction xs) simp_all

lemma ep_entity_id_bump [simp]: "ep_entity_id (bump_entity d now r) = ep_entity_id r"
  by (simp add: bump_entity_def)

lemma insert_entity_hit:
  assumes uq: "distinct (map (\<lambda>r. (ep_entity_name r, ep_entity_type r)) (ep_rows tbl))"
    and r: "r \<in> set (ep_rows tbl)"
  shows "insert_entity (ep_entity_name r) (ep_entity_type r) d now tbl =
     (Some (ep_entity_id r),
      tbl\<lparr> ep_rows := map (\<lambda>x. if ep_entity_id x = ep_entity_id r then bump_entity d now x else x)
                          (ep_rows tbl) \<rparr>)"
proof -
  have "filter (\<lambda>x. (ep_entity_name x, ep_entity_type x) = (ep_entity_name r, ep_entity_type r))
          (ep_rows tbl) = [r]"
    using uq r by (rule filter_distinct_key)
  then have "filter (\<lambda>x. ep_entity_name x = ep_entity_name r \<and> ep_entity_type x = ep_entity_type r)
          (ep_rows tbl) = [r]"
    by simp
  then show ?thesis by (simp add: insert_entity_def fetchone_def)
qed

text \<open>
  C5 (as stated): on a hit an already-present description is left unchanged. It is not:
  \<open>COALESCE(?, description)\<close> prefers the description passed in. The stored description
  \<open>old\<close> becomes \<open>new\<close>.
\<close>

theorem C5_description_counterexample:
  "map_option ep_description (entity_row example_entities 3) = Some (Some ''old'')
   \<and> map_option ep_description
       (entity_row
          (snd (insert_entity ''Acme'' ''organization'' (Some ''new'') 100 example_entities)) 3)
       = Some (Some ''new'')"
  by (simp add: example_entities_def example_entity_row_def entity_row_def insert_entity_def
      fetchone_def bump_entity_def COALESCE_def)

text \<open>
  C5 (amended): in a table that satisfies its primary key and its uniqueness constraint on
  (name, type), \<open>insert_entity\<close> called with the name and type of an existing row returns
  that row's entity id, increments its mention count by one, sets its last-seen (and
  updated-at) timestamp to the current instant, replaces its description by the one
  passed in whenever one is passed and keeps the stored one only when none is passed,
  and changes no other row.
\<close>

theorem C5_insert_entity_hit:
  assumes pk: "distinct (map ep_entity_id (ep_rows tbl))"
    and uq: "distinct (map (\<lambda>r. (ep_entity_name r, ep_entity_type r)) (ep_rows tbl))"
    and r: "r \<in> set (ep_rows tbl)"
  shows "fst (insert_entity (ep_entity_name r) (ep_entity_type r) d now tbl) = Some (ep_entity_id r)
    \<and> entity_row (snd (insert_entity (ep_entity_name r) (ep_entity_type r) d now tbl)) (ep_entity_id r)
        = Some (r\<lparr> ep_mention_count := ep_mention_count r + 1,
                   ep_last_seen := now, ep_updated_at := now,
                   ep_description := (case d of Some new \<Rightarrow> Some new | None \<Rightarrow> ep_description r) \<rparr>)
    \<and> (\<forall>i. i \<noteq> ep_entity_id r \<longrightarrow>
          entity_row (snd (insert_entity (ep_entity_name r) (ep_entity_type r) d now tbl)) i
            = entity_row tbl i)"
proof -
  let ?upd = "\<lambda>x. if ep_entity_id x = ep_entity_id r then bump_entity d now x else x"
  have res: "insert_entity (ep_entity_name r) (ep_entity_type r) d now tbl =
     (Some (ep_entity_id r), tbl\<lparr> ep_rows := map ?upd (ep_rows tbl) \<rparr>)"
    using uq r by (rule insert_entity_hit)
  have row: "entity_row (tbl\<lparr> ep_rows := map ?upd (ep_rows tbl) \<rparr>) i =
      map_option ?upd (entity_row tbl i)" for i
    unfolding entity_row_def by (simp add: find_map_preserving)
  have here: "entity_row tbl (ep_entity_id r) = Some r"
    unfolding entity_row_def using find_distinct_key [OF pk r] by simp
  have other: "map_option ?upd (entity_row tbl i) = entity_row tbl i" if "i \<noteq> ep_entity_id r" for i
  proof (cases "entity_row tbl i")
    case None
    then show ?thesis by simp
  next
    case (Some x)
    then have "ep_entity_id x = i" by (auto simp: entity_row_def find_Some_iff)
    with that Some show ?thesis by simp
  qed
  show ?thesis
    by (simp add: res row here other) (simp add: bump_entity_def COALESCE_def)
qed

theorem C5_insert_entity_hit_witness:
  "distinct (map ep_entity_id (ep_rows example_entities))
   \<and> example_entity_row \<in> set (ep_rows example_entities)
   \<and> fst (insert_entity ''Acme'' ''organization'' None 100 example_entities) = Some 3
   \<and> entity_row (snd (insert_entity ''Acme'' ''organization'' None 100 example_entities)) 3
       = Some (example_entity_row\<lparr> ep_mention_count := 5, ep_last_seen := 100,
                                    ep_updated_at := 100 \<rparr>)"
  using C5_insert_entity_hit [of example_entities example_entity_row None 100]
  by (simp add: example_entities_def example_entity_row_def)

section \<open>Similarity scores\<close>

lemma set_update_subset: "set (AList.update k v al) \<subseteq> insert (k, v) (set al)"
  by (induction al) auto

lemma set_dict_of_fold:
  "set (fold (\<lambda>(k, v) d. AList.update k v d) kvs d) \<subseteq> set kvs \<union> set d"
proof (induction kvs arbitrary: d)
  case Nil
  then show ?case by simp
next
  case (Cons kv kvs)
  obtain k v where kv: "kv = (k, v)" by (cases kv)
  have "set (fold (\<lambda>(k, v) d. AList.update k v d) kvs (AList.update k v d))
          \<subseteq> set kvs \<union> set (AList.update k v d)"
    by (rule Cons.IH)
  also have "\<dots> \<subseteq> set kvs \<union> insert (k, v) (set d)"
    using set_update_subset [of k v d] by auto
  finally show ?case by (auto simp: kv)
qed

lemma set_dict_of: "set (dict_of kvs) \<subseteq> set kvs"
  using set_dict_of_fold [of kvs "[]"] by (simp add: dict_of_def)

lemma entity_loop_bounds:
  assumes d: "\<forall>(k, v) \<in> set d. 0 \<le> v \<and> v \<le> 1"
    and ges: "list_all (\<lambda>e. in_unit (avg_relevance e) \<and> in_unit (frequency e)) ges"
    and acc: "0 \<le> s" "s \<le> m"
  shows "0 \<le> fst (entity_loop d ges (s, m)) \<and> fst (entity_loop d ges (s, m)) \<le> snd (entity_loop d ges (s, m))"
  using ges acc
proof (induction ges arbitrary: s m)
  case Nil
  then show ?case by simp
next
  case (Cons ge ges)
  define av where "av = (case avg_relevance ge of None \<Rightarrow> 0.7 | Some r \<Rightarrow> r)"
  define fr where "fr = (case frequency ge of None \<Rightarrow> 0 | Some f \<Rightarrow> f)"
  have av: "0 \<le> av" "av \<le> 1" using Cons.prems(1)
    by (auto simp: av_def in_unit_def split: option.splits)
  have fr: "0 \<le> fr" "fr \<le> 1" using Cons.prems(1)
    by (auto simp: fr_def in_unit_def split: option.splits)
  have p: "0 \<le> fr * av" using av fr by simp
  have rest: "list_all (\<lambda>e. in_unit (avg_relevance e) \<and> in_unit (frequency e)) ges"
    using Cons.prems(1) by simp
  show ?case
  proof (cases "map_of d (g_entity_id ge)")
    case None
    have "s \<le> m + fr * av" using Cons.prems(3) p by linarith
    from Cons.IH [OF rest Cons.prems(2) this] None show ?thesis
      by (simp add: av_def fr_def Let_def)
  next
    case (Some ar)
    then have "(g_entity_id ge, ar) \<in> set d" by (rule map_of_SomeD)
    with d have ar: "0 \<le> ar" "ar \<le> 1" by auto
    have "ar * (av * fr) \<le> 1 * (av * fr)"
      using ar av fr by (intro mult_right_mono) simp_all
    moreover have "ar * (av * fr) = ar * av * fr" "1 * (av * fr) = fr * av" by simp_all
    ultimately have le: "s + ar * av * fr \<le> m + fr * av"
      using Cons.prems(3) by linarith
    have ge0: "0 \<le> s + ar * av * fr" using Cons.prems(2) ar av fr by simp
    from Cons.IH [OF rest ge0 le] Some show ?thesis
      by (simp add: av_def fr_def Let_def)
  qed
qed

lemma article_entities_dict_unit:
  assumes "list_all (\<lambda>e. in_unit (relevance_score e)) es"
  shows "\<forall>(k, v) \<in> set (article_entities_dict es). 0 \<le> v \<and> v \<le> 1"
proof -
  have "\<forall>(k, v) \<in> set (map (\<lambda>e. (entity_id e, case relevance_score e of None \<Rightarrow> 0.7 | Some r \<Rightarrow> r)) es).
          0 \<le> v \<and> v \<le> 1"
    using assms by (auto simp: list_all_iff in_unit_def split: option.splits)
  then show ?thesis
    using set_dict_of unfolding article_entities_dict_def by blast
qed

lemma ratio_unit: "0 \<le> s \<Longrightarrow> s \<le> m \<Longrightarrow> 0 \<le> (if m > 0 then s / m else 0) \<and> (if m > 0 then s / m else 0) \<le> (1::real)"
  by (simp add: divide_le_eq)

lemma entity_similarity_unit:
  assumes "scores_in_unit a g"
  shows "0 \<le> calc_entity_similarity a g \<and> calc_entity_similarity a g \<le> 1"
proof -
  let ?d = "article_entities_dict (primary_entities a)"
  let ?r = "entity_loop ?d (g_primary_entities g) (0, 0)"
  have "0 \<le> fst ?r \<and> fst ?r \<le> snd ?r"
    using assms by (intro entity_loop_bounds article_entities_dict_unit)
      (simp_all add: scores_in_unit_def)
  then have "0 \<le> (if snd ?r > 0 then fst ?r / snd ?r else 0)
      \<and> (if snd ?r > 0 then fst ?r / snd ?r else 0) \<le> 1"
    using ratio_unit by blast
  then show ?thesis
    by (simp add: calc_entity_similarity_def Let_def split_beta)
qed

lemma jaccard_unit: "0 \<le> jaccard A B \<and> jaccard A B \<le> 1"
proof (cases "card (A \<union> B) > 0")
  case True
  then have "finite (A \<union> B)" by (rule card_ge_0_finite)
  then have "card (A \<inter> B) \<le> card (A \<union> B)" by (intro card_mono) auto
  with True show ?thesis by (simp add: jaccard_def Let_def divide_le_eq)
next
  case False
  then show ?thesis by (simp add: jaccard_def Let_def)
qed

lemma event_loop_bounds:
  assumes "\<forall>(k, v) \<in> set d. 0 \<le> v" "0 \<le> s" "s \<le> m"
  shows "0 \<le> fst (event_loop names d (s, m)) \<and> fst (event_loop names d (s, m)) \<le> snd (event_loop names d (s, m))"
  using assms
proof (induction d arbitrary: s m)
  case Nil
  then show ?case by simp
next
  case (Cons kv d)
  obtain k v where kv: "kv = (k, v)" by (cases kv)
  have v: "0 \<le> v" using Cons.prems(1) kv by simp
  have rest: "\<forall>(k, v) \<in> set d. 0 \<le> v" using Cons.prems(1) by simp
  show ?case
  proof (cases "k \<in> names")
    case True
    have "0 \<le> s + v" "s + v \<le> m + v" using v Cons.prems by simp_all
    from Cons.IH [OF rest this] True show ?thesis by (simp add: kv)
  next
    case False
    have "s \<le> m + v" using v Cons.prems by simp
    from Cons.IH [OF rest Cons.prems(2) this] False show ?thesis by (simp add: kv)
  qed
qed

lemma group_event_dict_nonneg:
  assumes "list_all (\<lambda>e. in_unit (item_frequency e)) xs"
  shows "\<forall>(k, v) \<in> set (group_event_dict xs). 0 \<le> v"
proof -
  have "\<forall>(k, v) \<in> set (map (\<lambda>e. (the (item_name e), case item_frequency e of None \<Rightarrow> 0 | Some f \<Rightarrow> f))
                  (filter (\<lambda>e. truthy (item_name e)) xs)). 0 \<le> v"
    using assms by (auto simp: list_all_iff in_unit_def split: option.splits)
  then show ?thesis
    using set_dict_of unfolding group_event_dict_def by blast
qed

lemma event_similarity_unit:
  assumes "event_frequencies_in_unit g"
  shows "0 \<le> calc_event_similarity a g \<and> calc_event_similarity a g \<le> 1"
proof -
  let ?r = "event_loop (article_event_names a) (group_event_dict (g_events g)) (0, 0)"
  have "0 \<le> fst ?r \<and> fst ?r \<le> snd ?r"
    using assms by (intro event_loop_bounds group_event_dict_nonneg)
      (simp_all add: event_frequencies_in_unit_def)
  then have "0 \<le> (if snd ?r > 0 then fst ?r / snd ?r else 0)
      \<and> (if snd ?r > 0 then fst ?r / snd ?r else 0) \<le> 1"
    using ratio_unit by blast
  then show ?thesis
    by (simp add: calc_event_similarity_def split_beta)
qed

lemma scorer_fields:
  "entity_similarity (calculate_article_to_group_similarity a g) = calc_entity_similarity a g"
  "company_similarity (calculate_article_to_group_similarity a g) = calc_company_similarity a g"
  "cve_similarity (calculate_article_to_group_similarity a g) = calc_cve_similarity a g"
  "event_similarity (calculate_article_to_group_similarity a g) = calc_event_similarity a g"
  by (simp_all add: calculate_article_to_group_similarity_def Let_def)

lemma composite_unit:
  "0 \<le> composite_score (calculate_article_to_group_similarity a g)
   \<and> composite_score (calculate_article_to_group_similarity a g) \<le> 1"
  by (simp add: calculate_article_to_group_similarity_def Let_def)

text \<open>
  C3: for every article signature and group signature whose relevance scores and
  frequencies lie in [0, 1], the entity, company, CVE and event similarities that
  \<open>calculate_article_to_group_similarity\<close> returns lie in [0, 1], and so does the
  composite score.
\<close>

theorem C3_scores_in_unit_interval:
  assumes "scores_in_unit a g"
  shows "(let r = calculate_article_to_group_similarity a g in
          0 \<le> entity_similarity r \<and> entity_similarity r \<le> 1
        \<and> 0 \<le> company_similarity r \<and> company_similarity r \<le> 1
        \<and> 0 \<le> cve_similarity r \<and> cve_similarity r \<le> 1
        \<and> 0 \<le> event_similarity r \<and> event_similarity r \<le> 1
        \<and> 0 \<le> composite_score r \<and> composite_score r \<le> 1)"
proof -
  have ev: "event_frequencies_in_unit g" using assms by (simp add: scores_in_unit_def)
  show ?thesis
    using entity_similarity_unit [OF assms] event_similarity_unit [OF ev]
      jaccard_unit [of "set (companies a)" "item_names (g_companies g)"]
      jaccard_unit [of "set (cves a)" "item_names (g_cves g)"]
      composite_unit [of a g]
    by (simp add: Let_def scorer_fields calc_company_similarity_def calc_cve_similarity_def)
qed

theorem C3_scores_in_unit_interval_witness:
  "scores_in_unit example_cve_article example_cve_group_signature
   \<and> entity_similarity
        (calculate_article_to_group_similarity example_cve_article example_cve_group_signature)
        = 0.9
   \<and> composite_score
        (calculate_article_to_group_similarity example_cve_article example_cve_group_signature)
        = 1"
  using C3_scores_in_unit_interval [of example_cve_article example_cve_group_signature]
  by (simp add: calculate_article_to_group_similarity_def Let_def
     calc_entity_similarity_def calc_company_similarity_def calc_cve_similarity_def
     calc_event_similarity_def calc_temporal_adjustment_def calc_source_bonus_def
     calc_core_entity_bonus_def top_article_entity_def top_group_entity_def sorted_reverse_def
     CORE_ENTITY_BONUS_def CORE_ENTITY_TYPES_def jaccard_def item_names_def truthy_def
     article_entities_dict_def dict_of_def article_event_names_def
     scores_in_unit_def event_frequencies_in_unit_def in_unit_def
     example_cve_article_def example_cve_group_signature_def)

section \<open>Articles without entities, companies and CVEs\<close>
















section \<open>The merge pass\<close>

lemma merge_ids_append [simp]: "merge_ids (ms @ [(s, d)]) = merge_ids ms @ [s, d]"
  by (simp add: merge_ids_def)

lemma merge_pair_invariant:
  assumes "pass_invariant st"
    and "group_id a \<notin> processed_group_ids st" "group_id b \<notin> processed_group_ids st"
    and "group_id a \<noteq> group_id b"
  shows "pass_invariant (merge_pair env a b st)"
  using assms by (auto simp: pass_invariant_def merge_pair_def Let_def)

lemma inner_loop_invariant:
  assumes "pass_invariant st" "group_id (fst a) \<notin> group_id ` fst ` set rest"
  shows "pass_invariant (inner_loop env thr a rest st)"
  using assms
proof (induction env thr a rest st rule: inner_loop.induct)
  case (1 env thr a st)
  then show ?case by simp
next
  case (2 env thr ga sa gb sb rest st)
  have ne: "group_id ga \<noteq> group_id gb" and rest: "group_id (fst (ga, sa)) \<notin> group_id ` fst ` set rest"
    using "2.prems"(2) by auto
  show ?case
  proof (cases "group_id ga \<in> processed_group_ids st \<or> group_id gb \<in> processed_group_ids st")
    case True
    with "2.IH"(1) [OF True "2.prems"(1) rest] show ?thesis by simp
  next
    case False
    show ?thesis
    proof (cases "calculate_group_similarity env sa sb")
      case None
      with False "2.prems"(1) show ?thesis by (simp add: pass_invariant_def)
    next
      case (Some sim)
      show ?thesis
      proof (cases "sim \<ge> thr")
        case True
        with False Some merge_pair_invariant [OF "2.prems"(1) _ _ ne, of env] show ?thesis by simp
      next
        case ff: False
        with "2.IH"(2) [OF False Some ff "2.prems"(1) rest] False Some show ?thesis by simp
      qed
    qed
  qed
qed

lemma outer_loop_invariant:
  assumes "pass_invariant st" "distinct (map (\<lambda>p. group_id (fst p)) gs)"
  shows "pass_invariant (outer_loop env thr gs st)"
  using assms
proof (induction gs arbitrary: st)
  case Nil
  then show ?case by simp
next
  case (Cons a rest)
  have n: "group_id (fst a) \<notin> group_id ` fst ` set rest" using Cons.prems(2) by (auto simp: image_iff)
  have i: "pass_invariant (inner_loop env thr a rest st)"
    by (rule inner_loop_invariant [OF Cons.prems(1) n])
  have d: "distinct (map (\<lambda>p. group_id (fst p)) rest)" using Cons.prems(2) by simp
  show ?case using i Cons.IH [OF i d] by (simp add: Let_def)
qed

lemma groups_with_signatures_distinct:
  assumes "distinct (map group_id gs)"
  shows "distinct (map (\<lambda>p. group_id (fst p)) (groups_with_signatures env gs))"
proof -
  have "map (\<lambda>p. group_id (fst p)) (groups_with_signatures env gs) =
     map group_id (filter (\<lambda>g. article_ids g \<noteq> [] \<and> generate_group_signature env g \<noteq> None) gs)"
    by (induction gs) (auto split: option.splits)
  then show ?thesis using assms by (simp add: distinct_map_filter)
qed

lemma get_existing_groups_ids: "map group_id (get_existing_groups db) = map row_group_id (group_rows db)"
  by (simp add: get_existing_groups_def comp_def)

lemma merge_ids_disjoint:
  "distinct (merge_ids ms) \<Longrightarrow> set (map fst ms) \<inter> set (map snd ms) = {}"
proof (induction ms)
  case Nil
  then show ?case by simp
next
  case (Cons p ms)
  have sub: "set (map fst ms) \<subseteq> set (merge_ids ms)" "set (map snd ms) \<subseteq> set (merge_ids ms)"
    by (auto simp: merge_ids_def)
  from Cons.prems have d: "distinct (merge_ids ms)" "fst p \<noteq> snd p"
    "fst p \<notin> set (merge_ids ms)" "snd p \<notin> set (merge_ids ms)"
    by (auto simp: merge_ids_def)
  with Cons.IH sub show ?case by auto
qed

lemma merge_similar_groups_invariant:
  assumes "distinct (map row_group_id (group_rows db))"
  shows "pass_invariant (merge_similar_groups env thr db)"
proof -
  have i0: "pass_invariant \<lparr> processed_group_ids = {}, merged_pairs_count = 0, errors = 0,
                  merge_log = [], db_state = db, raised = False \<rparr>"
    by (simp add: pass_invariant_def merge_ids_def)
  have "distinct (map group_id (get_existing_groups db))"
    using assms by (simp add: get_existing_groups_ids)
  then have "distinct (map (\<lambda>p. group_id (fst p)) (groups_with_signatures env (get_existing_groups db)))"
    by (rule groups_with_signatures_distinct)
  with i0 show ?thesis
    by (simp add: merge_similar_groups_def Let_def outer_loop_invariant)
      (simp add: pass_invariant_def merge_ids_def)
qed

text \<open>
  C8: in one invocation of \<open>merge_similar_groups\<close> on a store whose group ids are unique
  (the primary key), no group id occurs twice among the survivors and deleted groups of
  the merges made, so every group takes part in at most one merge and no id is both a
  survivor and a deleted group; the processed set, whose members every later comparison
  skips, is exactly the set of ids merged. This holds whatever the signatures and
  similarities are, whether transactions fail, and also when the pass ends by an
  exception.
\<close>

theorem C8_one_merge_per_group:
  assumes "distinct (map row_group_id (group_rows db))"
  shows "(let st = merge_similar_groups env thr db in
            distinct (merge_ids (merge_log st))
          \<and> set (map fst (merge_log st)) \<inter> set (map snd (merge_log st)) = {}
          \<and> processed_group_ids st = set (merge_ids (merge_log st))
          \<and> merged_pairs_count st = length (merge_log st))"
proof -
  let ?st = "merge_similar_groups env thr db"
  have i: "pass_invariant ?st" using assms by (rule merge_similar_groups_invariant)
  then have "distinct (merge_ids (merge_log ?st))" by (simp add: pass_invariant_def)
  then have "set (map fst (merge_log ?st)) \<inter> set (map snd (merge_log ?st)) = {}"
    by (rule merge_ids_disjoint)
  with i show ?thesis by (simp add: Let_def pass_invariant_def)
qed

theorem C8_one_merge_per_group_witness:
  "distinct (map row_group_id (group_rows example_store))
   \<and> merge_log (merge_similar_groups example_env 0.60 example_store) = [(1, 2)]
   \<and> processed_group_ids (merge_similar_groups example_env 0.60 example_store) = {1, 2}"
  using C8_one_merge_per_group [of example_store example_env "0.60"]
  by (simp add: merge_similar_groups_def get_existing_groups_def example_store_def
      example_env_def Let_def merge_pair_def merge_ids_def)

text \<open>
  C1 (the code at a failing input): the claim lets the larger group survive. In the
  example store group 1 has one article and group 2 has two, their similarity 0.72
  reaches the threshold 0.60, and the pass keeps group 1 and deletes group 2: the
  survivor is the group that comes first in the list, whatever the sizes.
\<close>

theorem C1_first_group_of_pair_survives:
  "map (\<lambda>g. (group_id g, length (article_ids g))) (get_existing_groups example_store)
     = [(1, 1), (2, 2), (3, 1)]
   \<and> merge_log (merge_similar_groups example_env 0.60 example_store) = [(1, 2)]"
  by (simp add: merge_similar_groups_def get_existing_groups_def example_store_def
      example_env_def Let_def merge_pair_def)

end
